theory Spec2Isabelle
  imports Main "HOL-Library.Sublist" "HOL-Library.Countable"
begin

section \<open>The comment store (internal/storage/comments.go)\<close>

text \<open>
  A \<open>Comment\<close> is the Go struct of the same name. Go strings are byte strings, which
  is what \<open>string\<close> is here. \<open>CreatedAt\<close> is a \<open>time.Time\<close>; the model keeps the instant
  as a number of nanoseconds.
\<close>

record Comment =
  ID :: string
  Content :: string
  Author :: string
  CreatedAt :: int
  UserID :: string

text \<open>The field \<open>comments map[string]Comment\<close>. The mutex has no sequential content.\<close>

type_synonym CommentStore = "string \<rightharpoonup> Comment"

definition NewCommentStore :: CommentStore where
  "NewCommentStore = Map.empty"

text \<open>
  A \<open>context.Context\<close> as the program uses it: \<open>Err\<close> is what \<open>ctx.Err()\<close> returns
  (\<open>None\<close> while the \<open>Done\<close> channel is open), \<open>Values\<close> holds the two keys that the
  authentication middleware sets.
\<close>

datatype ctx_error = Canceled | DeadlineExceeded

datatype contextKey = UserIDKey | UserRoleKey

record Context =
  Err :: "ctx_error option"
  Values :: "contextKey \<rightharpoonup> string"

datatype store_error = ErrNotFound | CtxErr ctx_error

text \<open>
  Every operation starts with
  \<^verbatim>\<open>select { case <-ctx.Done(): return ..., ctx.Err(); default: }\<close>
  and only then touches the map. The operations that write return the new map; the
  operations that only read are functions of the map. \<open>Create\<close> takes the results of
  \<open>util.GenerateID()\<close> and \<open>time.Now()\<close> as arguments.
\<close>

definition Create ::
  "Context \<Rightarrow> string \<Rightarrow> int \<Rightarrow> Comment \<Rightarrow> CommentStore \<Rightarrow> (store_error + Comment) \<times> CommentStore" where
  "Create ctx newID now c s =
     (case Err ctx of
        Some e \<Rightarrow> (Inl (CtxErr e), s)
      | None \<Rightarrow>
          (let c1 = c\<lparr>ID := newID\<rparr>;
               c2 = c1\<lparr>CreatedAt := now\<rparr>
           in (Inr c2, s(ID c2 \<mapsto> c2))))"

text \<open>
  \<open>List\<close> and \<open>ListByUser\<close> range over the map. Go leaves the order of that iteration
  unspecified, so the order in which the keys are visited is an argument \<open>ks\<close> (an
  enumeration of the keys of the map).
\<close>

definition List :: "Context \<Rightarrow> string list \<Rightarrow> CommentStore \<Rightarrow> store_error + Comment list" where
  "List ctx ks s =
     (case Err ctx of
        Some e \<Rightarrow> Inl (CtxErr e)
      | None \<Rightarrow> Inr (List.map_filter s ks))"

definition Get :: "Context \<Rightarrow> string \<Rightarrow> CommentStore \<Rightarrow> store_error + Comment" where
  "Get ctx cid s =
     (case Err ctx of
        Some e \<Rightarrow> Inl (CtxErr e)
      | None \<Rightarrow>
          (case s cid of
             None \<Rightarrow> Inl ErrNotFound
           | Some comment \<Rightarrow> Inr comment))"

definition Delete :: "Context \<Rightarrow> string \<Rightarrow> CommentStore \<Rightarrow> store_error option \<times> CommentStore" where
  "Delete ctx cid s =
     (case Err ctx of
        Some e \<Rightarrow> (Some (CtxErr e), s)
      | None \<Rightarrow>
          (case s cid of
             None \<Rightarrow> (Some ErrNotFound, s)
           | Some _ \<Rightarrow> (None, s(cid := None))))"

definition Update ::
  "Context \<Rightarrow> string \<Rightarrow> Comment \<Rightarrow> CommentStore \<Rightarrow> (store_error + Comment) \<times> CommentStore" where
  "Update ctx cid c s =
     (case Err ctx of
        Some e \<Rightarrow> (Inl (CtxErr e), s)
      | None \<Rightarrow>
          (case s cid of
             None \<Rightarrow> (Inl ErrNotFound, s)
           | Some existing \<Rightarrow>
               (let c1 = c\<lparr>ID := ID existing\<rparr>;
                    c2 = c1\<lparr>CreatedAt := CreatedAt existing\<rparr>;
                    c3 = c2\<lparr>UserID := UserID existing\<rparr>
                in (Inr c3, s(cid \<mapsto> c3)))))"

definition ListByUser ::
  "Context \<Rightarrow> string list \<Rightarrow> string \<Rightarrow> CommentStore \<Rightarrow> store_error + Comment list" where
  "ListByUser ctx ks userID s =
     (case Err ctx of
        Some e \<Rightarrow> Inl (CtxErr e)
      | None \<Rightarrow> Inr (filter (\<lambda>c. UserID c = userID) (List.map_filter s ks)))"

definition DeleteByUser ::
  "Context \<Rightarrow> string \<Rightarrow> CommentStore \<Rightarrow> store_error option \<times> CommentStore" where
  "DeleteByUser ctx userID s =
     (case Err ctx of
        Some e \<Rightarrow> (Some (CtxErr e), s)
      | None \<Rightarrow>
          (None, (\<lambda>k. case s k of
                          None \<Rightarrow> None
                        | Some c \<Rightarrow> if UserID c = userID then None else Some c)))"

text \<open>
  \<open>DeleteOlderThan\<close>: \<open>cutoff := time.Now().Add(-age)\<close>, and a record goes when
  \<open>c.CreatedAt.Before(cutoff)\<close>. Instants are nanoseconds. The age is a \<open>time.Duration\<close>,
  a 64-bit signed integer, so its negation wraps: \<open>int64\<close> is the value of an integer
  in that type.
\<close>

definition int64 :: "int \<Rightarrow> int" where
  "int64 x = (x + 2 ^ 63) mod 2 ^ 64 - 2 ^ 63"

definition DeleteOlderThan ::
  "Context \<Rightarrow> int \<Rightarrow> int \<Rightarrow> CommentStore \<Rightarrow> store_error option \<times> CommentStore" where
  "DeleteOlderThan ctx now age s =
     (case Err ctx of
        Some e \<Rightarrow> (Some (CtxErr e), s)
      | None \<Rightarrow>
          (let cutoff = now + int64 (- age)
           in (None, (\<lambda>k. case s k of
                               None \<Rightarrow> None
                             | Some c \<Rightarrow> if CreatedAt c < cutoff then None else Some c))))"

definition Count :: "Context \<Rightarrow> CommentStore \<Rightarrow> store_error + nat" where
  "Count ctx s =
     (case Err ctx of
        Some e \<Rightarrow> Inl (CtxErr e)
      | None \<Rightarrow> Inr (card (dom s)))"

section \<open>Strings (package strings)\<close>

definition HasPrefix :: "string \<Rightarrow> string \<Rightarrow> bool" where
  "HasPrefix s p = prefix p s"

definition TrimPrefix :: "string \<Rightarrow> string \<Rightarrow> string" where
  "TrimPrefix s p = (if HasPrefix s p then drop (length p) s else s)"

text \<open>
  \<open>strings.TrimSpace\<close> removes leading and trailing white space as \<open>unicode.IsSpace\<close>
  defines it. On a byte string these are the UTF-8 encodings of
  U+0009..U+000D, U+0020, U+0085, U+00A0, U+1680, U+2000..U+200A, U+2028, U+2029, U+202F,
  U+205F and U+3000.
\<close>

definition whiteSpace :: "string list" where
  "whiteSpace =
     [[CHR 0x09], [CHR 0x0A], [CHR 0x0B], [CHR 0x0C], [CHR 0x0D], [CHR 0x20],
      [CHR 0xC2, CHR 0x85], [CHR 0xC2, CHR 0xA0],
      [CHR 0xE1, CHR 0x9A, CHR 0x80],
      [CHR 0xE2, CHR 0x80, CHR 0x80], [CHR 0xE2, CHR 0x80, CHR 0x81],
      [CHR 0xE2, CHR 0x80, CHR 0x82], [CHR 0xE2, CHR 0x80, CHR 0x83],
      [CHR 0xE2, CHR 0x80, CHR 0x84], [CHR 0xE2, CHR 0x80, CHR 0x85],
      [CHR 0xE2, CHR 0x80, CHR 0x86], [CHR 0xE2, CHR 0x80, CHR 0x87],
      [CHR 0xE2, CHR 0x80, CHR 0x88], [CHR 0xE2, CHR 0x80, CHR 0x89],
      [CHR 0xE2, CHR 0x80, CHR 0x8A],
      [CHR 0xE2, CHR 0x80, CHR 0xA8], [CHR 0xE2, CHR 0x80, CHR 0xA9],
      [CHR 0xE2, CHR 0x80, CHR 0xAF],
      [CHR 0xE2, CHR 0x81, CHR 0x9F],
      [CHR 0xE3, CHR 0x80, CHR 0x80]]"

text \<open>The width in bytes of a white-space code point at the front (at the back) of
  the string, \<open>0\<close> when there is none.\<close>

definition spaceWidthLeft :: "string \<Rightarrow> nat" where
  "spaceWidthLeft s = (case find (\<lambda>p. prefix p s) whiteSpace of None \<Rightarrow> 0 | Some p \<Rightarrow> length p)"

definition spaceWidthRight :: "string \<Rightarrow> nat" where
  "spaceWidthRight s = (case find (\<lambda>p. suffix p s) whiteSpace of None \<Rightarrow> 0 | Some p \<Rightarrow> length p)"

lemma spaceWidthLeft_le: "spaceWidthLeft s \<le> length s"
  by (auto simp: spaceWidthLeft_def find_Some_iff prefix_def split: option.splits)

lemma spaceWidthRight_le: "spaceWidthRight s \<le> length s"
  by (auto simp: spaceWidthRight_def find_Some_iff suffix_def split: option.splits)

function TrimLeft :: "string \<Rightarrow> string" where
  "TrimLeft s = (if spaceWidthLeft s = 0 then s else TrimLeft (drop (spaceWidthLeft s) s))"
  by pat_completeness auto
termination
proof (relation "measure length")
  fix s assume "spaceWidthLeft s \<noteq> 0"
  with spaceWidthLeft_le [of s] show "(drop (spaceWidthLeft s) s, s) \<in> measure length"
    by (cases s) auto
qed simp

function TrimRight :: "string \<Rightarrow> string" where
  "TrimRight s = (if spaceWidthRight s = 0 then s else TrimRight (take (length s - spaceWidthRight s) s))"
  by pat_completeness auto
termination
proof (relation "measure length")
  fix s assume "spaceWidthRight s \<noteq> 0"
  with spaceWidthRight_le [of s] show "(take (length s - spaceWidthRight s) s, s) \<in> measure length"
    by (cases s) auto
qed simp

declare TrimLeft.simps [simp del] TrimRight.simps [simp del]

definition TrimSpace :: "string \<Rightarrow> string" where
  "TrimSpace s = TrimRight (TrimLeft s)"

section \<open>The token service (internal/auth/jwt.go)\<close>

text \<open>
  \<open>Claims\<close> is the struct of the same name: the two custom claims and, of the embedded
  \<open>jwt.RegisteredClaims\<close>, the three dates that \<open>GenerateToken\<close> sets. A date is a
  pointer in Go and may be absent. Instants and durations are nanoseconds.
\<close>

record Claims =
  ClaimsUserID :: string
  Role :: string
  ExpiresAt :: "int option"
  IssuedAt :: "int option"
  NotBefore :: "int option"

record JWTManager =
  secretKey :: string
  expiry :: int

definition NewJWTManager :: "string \<Rightarrow> int \<Rightarrow> JWTManager" where
  "NewJWTManager key exp = \<lparr>secretKey = key, expiry = exp\<rparr>"

definition Second :: int where
  "Second = 1000000000"

definition Hour :: int where
  "Hour = 3600 * Second"

subsection \<open>What the program uses of github.com/golang-jwt/jwt/v5\<close>

text \<open>
  The library is not under the repository's sources; this subsection models the part of
  it that \<open>jwt.go\<close> calls. Its signing methods are the HMAC family
  (\<open>*jwt.SigningMethodHMAC\<close>: HS256, HS384, HS512) and the others.
\<close>

datatype hash = SHA256 | SHA384 | SHA512

datatype SigningMethod = SigningMethodHMAC hash | SigningMethodOther string

datatype claim_error = ErrTokenExpired | ErrTokenNotValidYet

datatype jwt_error =
    ErrTokenMalformed
  | ErrTokenUnverifiable
  | ErrTokenSignatureInvalid
  | ErrTokenInvalidClaims "claim_error list"
  | ErrInvalidKeyType

text \<open>A \<open>jwt.Token\<close>: its method, its claims, the text that is signed (the first two
  segments of the compact form), the decoded signature, and the \<open>Valid\<close> flag.\<close>

record Token =
  TokenMethod :: SigningMethod
  TokenClaims :: Claims
  Signed :: string
  Signature :: string
  Valid :: bool

subsection \<open>What JSON carries\<close>

text \<open>
  Modelled from the spec: \<open>encoding/json\<close>, with which the library writes the claims, is
  not under the sources. The spec has the token encode the subject, the role and the three
  dates. JSON writes a Go string as valid UTF-8: a byte that does not start a well-formed
  UTF-8 sequence is replaced by U+FFFD (the bytes EF BF BD), as \<open>utf8.DecodeRuneInString\<close>
  judges it. \<open>runeWidth\<close> is the length of the well-formed sequence at the front of the
  string, \<open>0\<close> when there is none.
\<close>

definition continuation :: "char \<Rightarrow> bool" where
  "continuation c = (0x80 \<le> (of_char c :: nat) \<and> (of_char c :: nat) \<le> 0xBF)"

fun runeWidth :: "string \<Rightarrow> nat" where
  "runeWidth [] = 0"
| "runeWidth (c # cs) =
     (let b = (of_char c :: nat)
      in if b < 0x80 then 1
         else if 0xC2 \<le> b \<and> b \<le> 0xDF then
           (case cs of
              c1 # _ \<Rightarrow> if continuation c1 then 2 else 0
            | _ \<Rightarrow> 0)
         else if 0xE0 \<le> b \<and> b \<le> 0xEF then
           (case cs of
              c1 # c2 # _ \<Rightarrow>
                if (if b = 0xE0 then 0xA0 else 0x80) \<le> (of_char c1 :: nat)
                   \<and> (of_char c1 :: nat) \<le> (if b = 0xED then 0x9F else 0xBF)
                   \<and> continuation c2
                then 3 else 0
            | _ \<Rightarrow> 0)
         else if 0xF0 \<le> b \<and> b \<le> 0xF4 then
           (case cs of
              c1 # c2 # c3 # _ \<Rightarrow>
                if (if b = 0xF0 then 0x90 else 0x80) \<le> (of_char c1 :: nat)
                   \<and> (of_char c1 :: nat) \<le> (if b = 0xF4 then 0x8F else 0xBF)
                   \<and> continuation c2 \<and> continuation c3
                then 4 else 0
            | _ \<Rightarrow> 0)
         else 0)"

fun coerce :: "nat \<Rightarrow> string \<Rightarrow> string" where
  "coerce pending [] = []"
| "coerce pending (c # cs) =
     (if pending > 0 then c # coerce (pending - 1) cs
      else (case runeWidth (c # cs) of
              0 \<Rightarrow> [CHR 0xEF, CHR 0xBF, CHR 0xBD] @ coerce 0 cs
            | Suc n \<Rightarrow> c # coerce n cs))"

definition ToValidUTF8 :: "string \<Rightarrow> string" where
  "ToValidUTF8 s = coerce 0 s"

text \<open>
  Modelled from the spec: the claims as the JSON text carries them, with the strings
  coerced to valid UTF-8 and every date in whole seconds (\<open>NumericDate.MarshalJSON\<close>
  truncates to \<open>jwt.TimePrecision\<close>).
\<close>

definition asJSON :: "Claims \<Rightarrow> Claims" where
  "asJSON c =
     \<lparr>ClaimsUserID = ToValidUTF8 (ClaimsUserID c),
      Role = ToValidUTF8 (Role c),
      ExpiresAt = map_option (\<lambda>t. t div Second * Second) (ExpiresAt c),
      IssuedAt = map_option (\<lambda>t. t div Second * Second) (IssuedAt c),
      NotBefore = map_option (\<lambda>t. t div Second * Second) (NotBefore c)\<rparr>"

subsection \<open>The compact serialisation\<close>

text \<open>
  Modelled from the spec: the library's compact serialisation (three segments, base64url
  of JSON) is not under the sources. It is a parameter of the model, made of four
  functions:
  \<^item> \<open>decodeFn\<close> is what \<open>ParseWithClaims\<close> does before it calls the key function:
    splitting the compact form, decoding header and claims, looking up the method named
    by \<open>alg\<close>, decoding the signature. It fails with the library's error.
  \<^item> \<open>signingStringFn\<close> serialises method and claims into the text to sign.
  \<^item> \<open>compactFn\<close> appends the encoded signature to that text.
  \<^item> \<open>hashFn\<close> is the hash function of each HMAC method.

  A library is any such four functions that are \<open>lossless\<close>: decoding the serialisation
  of an HMAC method, of claims as JSON carries them and of a signature gives back that
  method, those claims, the signed text and the signature, not yet marked valid. On every
  other string the decoder is arbitrary.
\<close>

record jwt_functions =
  decodeFn :: "string \<Rightarrow> jwt_error + Token"
  signingStringFn :: "SigningMethod \<Rightarrow> Claims \<Rightarrow> string"
  compactFn :: "string \<Rightarrow> string \<Rightarrow> string"
  hashFn :: "hash \<Rightarrow> string \<Rightarrow> string"

definition lossless :: "jwt_functions \<Rightarrow> bool" where
  "lossless f =
     (\<forall>h c sig.
        decodeFn f (compactFn f (signingStringFn f (SigningMethodHMAC h) (asJSON c)) sig)
          = Inr \<lparr>TokenMethod = SigningMethodHMAC h, TokenClaims = asJSON c,
                 Signed = signingStringFn f (SigningMethodHMAC h) (asJSON c),
                 Signature = sig, Valid = False\<rparr>)"

text \<open>
  Such functions exist: \<open>example_functions\<close> writes method and claims as a run of the
  letter \<open>a\<close> whose length numbers them, followed by a dot and the signature, and hashes
  a string to itself.
\<close>

definition hash_number :: "hash \<Rightarrow> nat" where
  "hash_number h = (case h of SHA256 \<Rightarrow> 0 | SHA384 \<Rightarrow> 1 | SHA512 \<Rightarrow> 2)"

definition number_hash :: "nat \<Rightarrow> hash" where
  "number_hash n = (if n = 0 then SHA256 else if n = 1 then SHA384 else SHA512)"

definition example_number :: "hash \<Rightarrow> Claims \<Rightarrow> nat" where
  "example_number h c =
     to_nat (hash_number h, map of_char (ClaimsUserID c) :: nat list, map of_char (Role c) :: nat list,
             ExpiresAt c, IssuedAt c, NotBefore c)"

definition example_signingString :: "SigningMethod \<Rightarrow> Claims \<Rightarrow> string" where
  "example_signingString method c =
     (case method of
        SigningMethodHMAC h \<Rightarrow> replicate (example_number h c) (CHR ''a'')
      | SigningMethodOther _ \<Rightarrow> [])"

definition example_decode :: "string \<Rightarrow> jwt_error + Token" where
  "example_decode s =
     (let sstr = takeWhile (\<lambda>c. c = CHR ''a'') s
      in case drop (length sstr) s of
           [] \<Rightarrow> Inl ErrTokenMalformed
         | d # sig \<Rightarrow>
             if d \<noteq> CHR ''.'' then Inl ErrTokenMalformed
             else (case from_nat (length sstr) of
                     (h, u, r, e, i, n) \<Rightarrow>
                       Inr \<lparr>TokenMethod = SigningMethodHMAC (number_hash h),
                            TokenClaims = \<lparr>ClaimsUserID = map char_of (u :: nat list),
                                            Role = map char_of (r :: nat list),
                                            ExpiresAt = e, IssuedAt = i, NotBefore = n\<rparr>,
                            Signed = sstr, Signature = sig, Valid = False\<rparr>))"

definition example_functions :: jwt_functions where
  "example_functions =
     \<lparr>decodeFn = example_decode,
      signingStringFn = example_signingString,
      compactFn = (\<lambda>sstr sig. sstr @ ''.'' @ sig),
      hashFn = (\<lambda>h s. s)\<rparr>"

lemma number_hash_number: "number_hash (hash_number h) = h"
  by (cases h) (simp_all add: number_hash_def hash_number_def)

lemma map_char_of_of_char: "map char_of (map of_char s :: nat list) = s"
  by (induction s) simp_all

lemma example_decode_compact:
  "example_decode (example_signingString (SigningMethodHMAC h) c @ ''.'' @ sig)
     = Inr \<lparr>TokenMethod = SigningMethodHMAC h, TokenClaims = c,
            Signed = example_signingString (SigningMethodHMAC h) c,
            Signature = sig, Valid = False\<rparr>"
proof -
  have tw: "takeWhile (\<lambda>c. c = CHR ''a'') (replicate n (CHR ''a'') @ CHR ''.'' # sig)
              = replicate n (CHR ''a'')" for n
    by (induction n) simp_all
  show ?thesis
    by (simp add: example_decode_def example_signingString_def tw example_number_def
        number_hash_number map_char_of_of_char)
qed

lemma lossless_example: "lossless example_functions"
  using example_decode_compact by (simp add: lossless_def example_functions_def)

typedef jwt_library = "{f. lossless f}"
  using lossless_example by blast

definition DecodeToken :: "jwt_library \<Rightarrow> string \<Rightarrow> jwt_error + Token" where
  "DecodeToken lib = decodeFn (Rep_jwt_library lib)"

definition SigningString :: "jwt_library \<Rightarrow> SigningMethod \<Rightarrow> Claims \<Rightarrow> string" where
  "SigningString lib method claims = signingStringFn (Rep_jwt_library lib) method (asJSON claims)"

definition Compact :: "jwt_library \<Rightarrow> string \<Rightarrow> string \<Rightarrow> string" where
  "Compact lib = compactFn (Rep_jwt_library lib)"

definition Hash :: "jwt_library \<Rightarrow> hash \<Rightarrow> string \<Rightarrow> string" where
  "Hash lib = hashFn (Rep_jwt_library lib)"

subsection \<open>HMAC\<close>

text \<open>
  Modelled from the spec: \<open>crypto/hmac\<close> is not under the sources. \<open>hmac.New\<close> hashes a
  key that is longer than the block of the hash, copies the key into a block of zero
  bytes, and the sum is the hash of the block xor \<open>5C\<close> followed by the hash of the block
  xor \<open>36\<close> followed by the message.
\<close>

definition BlockSize :: "hash \<Rightarrow> nat" where
  "BlockSize h = (case h of SHA256 \<Rightarrow> 64 | SHA384 \<Rightarrow> 128 | SHA512 \<Rightarrow> 128)"

definition xorByte :: "nat \<Rightarrow> char \<Rightarrow> char" where
  "xorByte b c = char_of (xor (of_char c) b)"

definition keyBlock :: "jwt_library \<Rightarrow> hash \<Rightarrow> string \<Rightarrow> string" where
  "keyBlock lib h key =
     (let k = (if length key > BlockSize h then Hash lib h key else key)
      in take (BlockSize h) k @ replicate (BlockSize h - length k) (CHR 0x00))"

definition HMAC :: "jwt_library \<Rightarrow> hash \<Rightarrow> string \<Rightarrow> string \<Rightarrow> string" where
  "HMAC lib h key msg =
     (let block = keyBlock lib h key;
          ipad = map (xorByte 0x36) block;
          opad = map (xorByte 0x5C) block
      in Hash lib h (opad @ Hash lib h (ipad @ msg)))"

subsection \<open>Signing, verifying, validating\<close>

text \<open>
  Modelled from the spec: \<open>jwt.NewNumericDate\<close> is not under the sources. The spec has
  expiry at now plus the validity window and issued-at and not-before at now; the library
  keeps each date truncated to \<open>jwt.TimePrecision\<close>, one second.
\<close>

definition NewNumericDate :: "int \<Rightarrow> int option" where
  "NewNumericDate t = Some (t div Second * Second)"

text \<open>
  Modelled from the spec: \<open>Sign\<close> and \<open>Verify\<close> of a signing method are not under the
  sources. For a key that is a byte string (the only kind of key this program has) an
  HMAC method signs with the keyed hash and verifies by recomputing it; every other
  method refuses a byte-string key.
\<close>

definition Sign :: "jwt_library \<Rightarrow> SigningMethod \<Rightarrow> string \<Rightarrow> string \<Rightarrow> jwt_error + string" where
  "Sign lib method signingString key =
     (case method of
        SigningMethodHMAC h \<Rightarrow> Inr (HMAC lib h key signingString)
      | SigningMethodOther _ \<Rightarrow> Inl ErrInvalidKeyType)"

definition Verify :: "jwt_library \<Rightarrow> SigningMethod \<Rightarrow> string \<Rightarrow> string \<Rightarrow> string \<Rightarrow> bool" where
  "Verify lib method signingString sig key =
     (case method of
        SigningMethodHMAC h \<Rightarrow> sig = HMAC lib h key signingString
      | SigningMethodOther _ \<Rightarrow> False)"

definition SignedString :: "jwt_library \<Rightarrow> SigningMethod \<Rightarrow> Claims \<Rightarrow> string \<Rightarrow> jwt_error + string" where
  "SignedString lib method claims key =
     (let sstr = SigningString lib method claims
      in case Sign lib method sstr key of
           Inl e \<Rightarrow> Inl e
         | Inr sig \<Rightarrow> Inr (Compact lib sstr sig))"

text \<open>
  Modelled from the spec: the library's default validator is not under the sources. The
  spec admits the current instant when it falls within [not-before, expiry). At the
  instant \<open>now\<close> that the validator's \<open>time.Now()\<close> reads: with an \<open>exp\<close> claim the token
  is expired unless \<open>now.Before(exp)\<close>; with an \<open>nbf\<close> claim it is not yet valid if
  \<open>now.Before(nbf)\<close>. There is no leeway, \<open>iat\<close> is not checked, a date that is absent
  sets no bound, and all failures are collected.
\<close>

definition Validate :: "int \<Rightarrow> Claims \<Rightarrow> claim_error list" where
  "Validate now claims =
     (case ExpiresAt claims of
        None \<Rightarrow> []
      | Some exp \<Rightarrow> if now < exp then [] else [ErrTokenExpired])
     @
     (case NotBefore claims of
        None \<Rightarrow> []
      | Some nbf \<Rightarrow> if \<not> now < nbf then [] else [ErrTokenNotValidYet])"

text \<open>
  Modelled from the spec: \<open>jwt.ParseWithClaims\<close> is not under the sources. The spec's
  \<open>validate\<close> verifies the signature with the expected algorithm family only, rejects a
  token outside its validity window, and fails with a malformed-token, an
  unexpected-algorithm, an invalid-signature or an expired-or-not-yet-valid error. The
  library decodes, asks the key function for the key, verifies the signature, validates
  the claims, and only then sets \<open>Valid\<close>.
\<close>

definition ParseWithClaims ::
  "jwt_library \<Rightarrow> (Token \<Rightarrow> string + string) \<Rightarrow> int \<Rightarrow> string \<Rightarrow> jwt_error + Token" where
  "ParseWithClaims lib keyFunc now tokenString =
     (case DecodeToken lib tokenString of
        Inl e \<Rightarrow> Inl e
      | Inr token \<Rightarrow>
          (case keyFunc token of
             Inl _ \<Rightarrow> Inl ErrTokenUnverifiable
           | Inr key \<Rightarrow>
               if \<not> Verify lib (TokenMethod token) (Signed token) (Signature token) key
               then Inl ErrTokenSignatureInvalid
               else (case Validate now (TokenClaims token) of
                       [] \<Rightarrow> Inr (token\<lparr>Valid := True\<rparr>)
                     | e # es \<Rightarrow> Inl (ErrTokenInvalidClaims (e # es)))))"

subsection \<open>GenerateToken and ValidateToken\<close>

text \<open>
  \<open>GenerateToken\<close> reads the clock three times, for \<open>ExpiresAt\<close>, \<open>IssuedAt\<close> and
  \<open>NotBefore\<close> in this order; the readings are the arguments \<open>t1\<close>, \<open>t2\<close>, \<open>t3\<close>.
\<close>

definition GenerateToken ::
  "jwt_library \<Rightarrow> JWTManager \<Rightarrow> string \<Rightarrow> string \<Rightarrow> int \<Rightarrow> int \<Rightarrow> int \<Rightarrow> jwt_error + string" where
  "GenerateToken lib m userID role t1 t2 t3 =
     (let claims = \<lparr>ClaimsUserID = userID, Role = role,
                     ExpiresAt = NewNumericDate (t1 + expiry m),
                     IssuedAt = NewNumericDate t2,
                     NotBefore = NewNumericDate t3\<rparr>
      in SignedString lib (SigningMethodHMAC SHA256) claims (secretKey m))"

datatype auth_error = InvalidToken jwt_error | InvalidTokenClaims

text \<open>The key function that \<open>ValidateToken\<close> passes: only an HMAC method gets the key.\<close>

definition keyFunc :: "JWTManager \<Rightarrow> Token \<Rightarrow> string + string" where
  "keyFunc m token =
     (case TokenMethod token of
        SigningMethodHMAC _ \<Rightarrow> Inr (secretKey m)
      | SigningMethodOther alg \<Rightarrow> Inl (''unexpected signing method: '' @ alg))"

definition ValidateToken :: "jwt_library \<Rightarrow> JWTManager \<Rightarrow> int \<Rightarrow> string \<Rightarrow> auth_error + Claims" where
  "ValidateToken lib m now tokenStr =
     (case ParseWithClaims lib (keyFunc m) now tokenStr of
        Inl err \<Rightarrow> Inl (InvalidToken err)
      | Inr token \<Rightarrow>
          if \<not> Valid token then Inl InvalidTokenClaims
          else Inr (TokenClaims token))"

subsection \<open>Concrete tokens\<close>

text \<open>
  A library, the claims of a token issued at 10.5 seconds for 24 hours, and the token
  string with given claims signed under a given key, for evaluating the definitions.
\<close>

definition example_library :: jwt_library where
  "example_library = Abs_jwt_library example_functions"

definition example_claims :: Claims where
  "example_claims =
     \<lparr>ClaimsUserID = ''test'', Role = ''user'',
      ExpiresAt = Some (86410 * Second),
      IssuedAt = Some (10 * Second),
      NotBefore = Some (10 * Second)\<rparr>"

definition example_token :: "string \<Rightarrow> Claims \<Rightarrow> string" where
  "example_token key claims =
     Compact example_library (SigningString example_library (SigningMethodHMAC SHA256) claims)
       (HMAC example_library SHA256 key
          (SigningString example_library (SigningMethodHMAC SHA256) claims))"

section \<open>The HTTP layer (internal/api)\<close>

subsection \<open>Requests and responses\<close>

text \<open>
  What a handler sees of an \<open>http.Request\<close>: method, \<open>URL.Path\<close>, headers (\<open>Header.Get\<close>
  of an absent header is the empty string), the context, and the body. The body is kept
  as the outcome of \<open>json.NewDecoder(r.Body).Decode(&v)\<close> for a \<open>createCommentRequest\<close>:
  \<open>None\<close> when decoding fails.
\<close>

record createCommentRequest =
  ReqContent :: string
  ReqAuthor :: string

record Request =
  Method :: string
  Path :: string
  Header :: "string \<rightharpoonup> string"
  Body :: "createCommentRequest option"
  Ctx :: Context

definition Header_Get :: "Request \<Rightarrow> string \<Rightarrow> string" where
  "Header_Get r k = (case Header r k of None \<Rightarrow> [] | Some v \<Rightarrow> v)"

text \<open>
  The two errors of \<open>decodeValid\<close>: \<open>"decode json: ..."\<close> and
  \<open>"invalid %T: %d problems"\<close> with the type name and the number of problems.
\<close>

datatype api_error = DecodeJSON | Invalid string nat

text \<open>
  What is written to the response: a line of text (\<open>http.Error\<close>), the line of an
  error's message, or a value encoded as JSON. \<open>commentResponse\<close> has the five fields
  of \<open>Comment\<close>, and the handlers copy them one by one, so the record itself stands
  for it.
\<close>

datatype payload =
    Problems "string \<rightharpoonup> string"
  | CommentJSON Comment
  | CommentsJSON "Comment list"

datatype body = Text string | ErrorText api_error | JSON payload

record ResponseWriter =
  Headers :: "string \<rightharpoonup> string"
  Status :: "nat option"
  Written :: "body list"

definition Header_Set :: "ResponseWriter \<Rightarrow> string \<Rightarrow> string \<Rightarrow> ResponseWriter" where
  "Header_Set w k v = w\<lparr>Headers := (Headers w)(k \<mapsto> v)\<rparr>"

text \<open>Only the first \<open>WriteHeader\<close> counts; a \<open>Write\<close> before any sends 200.\<close>

definition WriteHeader :: "ResponseWriter \<Rightarrow> nat \<Rightarrow> ResponseWriter" where
  "WriteHeader w code = (if Status w = None then w\<lparr>Status := Some code\<rparr> else w)"

definition Write :: "ResponseWriter \<Rightarrow> body \<Rightarrow> ResponseWriter" where
  "Write w b = (let w1 = WriteHeader w 200 in w1\<lparr>Written := Written w1 @ [b]\<rparr>)"

definition StatusOK :: nat where "StatusOK = 200"
definition StatusCreated :: nat where "StatusCreated = 201"
definition StatusNoContent :: nat where "StatusNoContent = 204"
definition StatusBadRequest :: nat where "StatusBadRequest = 400"
definition StatusUnauthorized :: nat where "StatusUnauthorized = 401"
definition StatusForbidden :: nat where "StatusForbidden = 403"
definition StatusNotFound :: nat where "StatusNotFound = 404"
definition StatusMethodNotAllowed :: nat where "StatusMethodNotAllowed = 405"
definition StatusInternalServerError :: nat where "StatusInternalServerError = 500"

text \<open>\<open>http.Error\<close>: plain-text headers, the status, and the message as a line.\<close>

definition Error :: "ResponseWriter \<Rightarrow> body \<Rightarrow> nat \<Rightarrow> ResponseWriter" where
  "Error w msg code =
     (let w1 = Header_Set w ''Content-Type'' ''text/plain; charset=utf-8'';
          w2 = Header_Set w1 ''X-Content-Type-Options'' ''nosniff'';
          w3 = WriteHeader w2 code
      in Write w3 msg)"

text \<open>\<open>encode\<close> (encode.go). An encoding failure is only logged.\<close>

definition encode :: "ResponseWriter \<Rightarrow> nat \<Rightarrow> payload \<Rightarrow> ResponseWriter" where
  "encode w status v =
     (let w1 = Header_Set w ''Content-Type'' ''application/json'';
          w2 = WriteHeader w1 status
      in Write w2 (JSON v))"

text \<open>
  What a request handler reads from outside the request: the clock as the token
  validator and as \<open>Create\<close> read it, the identifier that \<open>util.GenerateID()\<close> returns,
  and the order in which \<open>range\<close> visits the store.
\<close>

record Env =
  AuthNow :: int
  NewID :: string
  StoreNow :: int
  RangeOrder :: "string list"

text \<open>An \<open>http.Handler\<close> of this server: it writes to the response and may change the
  store.\<close>

type_synonym Handler =
  "Env \<Rightarrow> ResponseWriter \<Rightarrow> Request \<Rightarrow> CommentStore \<Rightarrow> ResponseWriter \<times> CommentStore"

subsection \<open>middleware.go\<close>

definition WithValue :: "Context \<Rightarrow> contextKey \<Rightarrow> string \<Rightarrow> Context" where
  "WithValue ctx k v = ctx\<lparr>Values := (Values ctx)(k \<mapsto> v)\<rparr>"

definition UserIDFromContext :: "Context \<Rightarrow> string" where
  "UserIDFromContext ctx = (case Values ctx UserIDKey of Some v \<Rightarrow> v | None \<Rightarrow> [])"

definition UserRoleFromContext :: "Context \<Rightarrow> string" where
  "UserRoleFromContext ctx = (case Values ctx UserRoleKey of Some v \<Rightarrow> v | None \<Rightarrow> [])"

definition newAuthMiddleware :: "jwt_library \<Rightarrow> string \<Rightarrow> Handler \<Rightarrow> Handler" where
  "newAuthMiddleware lib jwtSecret next env w r st =
     (let jwtManager = NewJWTManager jwtSecret (24 * Hour)
      in if Path r = ''/healthz'' \<or> Path r = ''/api/v1/login'' then next env w r st
         else
           (let authHeader = Header_Get r ''Authorization''
            in if \<not> HasPrefix authHeader ''Bearer ''
               then (Error w (Text ''Unauthorized'') StatusUnauthorized, st)
               else
                 (let tokenStr = TrimPrefix authHeader ''Bearer ''
                  in case ValidateToken lib jwtManager (AuthNow env) tokenStr of
                       Inl err \<Rightarrow> (Error w (Text ''Invalid token'') StatusUnauthorized, st)
                     | Inr claims \<Rightarrow>
                         (let ctx1 = WithValue (Ctx r) UserIDKey (ClaimsUserID claims);
                              ctx2 = WithValue ctx1 UserRoleKey (Role claims)
                          in next env w (r\<lparr>Ctx := ctx2\<rparr>) st))))"

definition newCORSMiddleware :: "Handler \<Rightarrow> Handler" where
  "newCORSMiddleware next env w r st =
     (let w1 = Header_Set w ''Access-Control-Allow-Origin'' ''*'';
          w2 = Header_Set w1 ''Access-Control-Allow-Methods'' ''GET, POST, PUT, DELETE, OPTIONS'';
          w3 = Header_Set w2 ''Access-Control-Allow-Headers'' ''Content-Type, Authorization''
      in if Method r = ''OPTIONS'' then (WriteHeader w3 StatusOK, st)
         else next env w3 r st)"

subsection \<open>handlers.go and encode.go\<close>

text \<open>The method \<open>Valid\<close> of \<open>createCommentRequest\<close>.\<close>

definition createCommentRequest_Valid :: "createCommentRequest \<Rightarrow> (string \<rightharpoonup> string)" where
  "createCommentRequest_Valid r =
     (let p0 = Map.empty;
          p1 = (if TrimSpace (ReqContent r) = [] then p0(''content'' \<mapsto> ''content is required'') else p0);
          p2 = (if length (ReqContent r) > 1000
                then p1(''content'' \<mapsto> ''content must be less than 1000 characters'') else p1);
          p3 = (if TrimSpace (ReqAuthor r) = [] then p2(''author'' \<mapsto> ''author is required'') else p2)
      in p3)"

text \<open>
  \<open>decodeValid\<close> returns the value, the problems and an error. With problems it returns
  them together with a non-nil error. (After a decoding error the value is whatever the
  decoder left; no caller reads it.)
\<close>

definition decodeValid ::
  "Request \<Rightarrow> createCommentRequest \<times> (string \<rightharpoonup> string) \<times> api_error option" where
  "decodeValid r =
     (case Body r of
        None \<Rightarrow> (\<lparr>ReqContent = [], ReqAuthor = []\<rparr>, Map.empty, Some DecodeJSON)
      | Some v \<Rightarrow>
          (let problems = createCommentRequest_Valid v
           in if card (dom problems) > 0
              then (v, problems, Some (Invalid ''api.createCommentRequest'' (card (dom problems))))
              else (v, Map.empty, None)))"

text \<open>The handler of \<open>/api/v1/comments\<close>. Calls of the logger are left out.\<close>

definition handleComments :: Handler where
  "handleComments env w r st =
     (let ctx = Ctx r;
          userID = UserIDFromContext ctx
      in if Method r = ''GET'' then
           (case List ctx (RangeOrder env) st of
              Inl err \<Rightarrow> (Error w (Text ''Internal Server Error'') StatusInternalServerError, st)
            | Inr comments \<Rightarrow> (encode w StatusOK (CommentsJSON comments), st))
         else if Method r = ''POST'' then
           (case decodeValid r of
              (req, problems, Some err) \<Rightarrow> (Error w (ErrorText err) StatusBadRequest, st)
            | (req, problems, None) \<Rightarrow>
                if card (dom problems) > 0
                then (encode w StatusBadRequest (Problems problems), st)
                else
                  (case Create ctx (NewID env) (StoreNow env)
                          \<lparr>ID = [], Content = ReqContent req, Author = ReqAuthor req,
                           CreatedAt = 0, UserID = userID\<rparr> st of
                     (Inl err, st') \<Rightarrow>
                       (Error w (Text ''Internal Server Error'') StatusInternalServerError, st')
                   | (Inr comment, st') \<Rightarrow>
                       (encode w StatusCreated (CommentJSON comment), st')))
         else (Error w (Text ''Method Not Allowed'') StatusMethodNotAllowed, st))"

text \<open>The handler of \<open>/api/v1/comments/\<close>.\<close>

definition handleComment :: Handler where
  "handleComment env w r st =
     (let ctx = Ctx r;
          userID = UserIDFromContext ctx;
          commentID = TrimPrefix (Path r) ''/api/v1/comments/''
      in if commentID = [] then (Error w (Text ''Comment ID required'') StatusBadRequest, st)
         else if Method r = ''GET'' then
           (case Get ctx commentID st of
              Inl err \<Rightarrow>
                if err = ErrNotFound
                then (Error w (Text ''Comment not found'') StatusNotFound, st)
                else (Error w (Text ''Internal Server Error'') StatusInternalServerError, st)
            | Inr comment \<Rightarrow> (encode w StatusOK (CommentJSON comment), st))
         else if Method r = ''PUT'' then
           (case decodeValid r of
              (req, problems, Some err) \<Rightarrow> (Error w (ErrorText err) StatusBadRequest, st)
            | (req, problems, None) \<Rightarrow>
                if card (dom problems) > 0
                then (encode w StatusBadRequest (Problems problems), st)
                else
                  (case Get ctx commentID st of
                     Inl err \<Rightarrow>
                       if err = ErrNotFound
                       then (Error w (Text ''Comment not found'') StatusNotFound, st)
                       else (Error w (Text ''Internal Server Error'') StatusInternalServerError, st)
                   | Inr existing \<Rightarrow>
                       if UserID existing \<noteq> userID
                       then (Error w (Text ''Forbidden'') StatusForbidden, st)
                       else
                         (case Update ctx commentID
                                 \<lparr>ID = [], Content = ReqContent req, Author = ReqAuthor req,
                                  CreatedAt = 0, UserID = userID\<rparr> st of
                            (Inl err, st') \<Rightarrow>
                              (Error w (Text ''Internal Server Error'') StatusInternalServerError, st')
                          | (Inr comment, st') \<Rightarrow>
                              (encode w StatusOK (CommentJSON comment), st'))))
         else if Method r = ''DELETE'' then
           (case Get ctx commentID st of
              Inl err \<Rightarrow>
                if err = ErrNotFound
                then (Error w (Text ''Comment not found'') StatusNotFound, st)
                else (Error w (Text ''Internal Server Error'') StatusInternalServerError, st)
            | Inr existing \<Rightarrow>
                if UserID existing \<noteq> userID
                then (Error w (Text ''Forbidden'') StatusForbidden, st)
                else
                  (case Delete ctx commentID st of
                     (Some err, st') \<Rightarrow>
                       (Error w (Text ''Internal Server Error'') StatusInternalServerError, st')
                   | (None, st') \<Rightarrow> (WriteHeader w StatusNoContent, st')))
         else (Error w (Text ''Method Not Allowed'') StatusMethodNotAllowed, st))"

subsection \<open>server.go\<close>

text \<open>
  \<open>NewServer\<close> wraps the router in the logging middleware, then in the authentication
  middleware, then in the CORS middleware, so a request meets CORS first. The argument
  \<open>mux\<close> is the router inside the logging middleware, which only logs.
\<close>

record Config =
  DatabaseURL :: string
  JWTSecret :: string
  Environment :: string

definition NewServer :: "jwt_library \<Rightarrow> Config \<Rightarrow> Handler \<Rightarrow> Handler" where
  "NewServer lib config mux =
     (let handler = mux;
          authMiddleware = newAuthMiddleware lib (JWTSecret config);
          handler1 = authMiddleware handler;
          corsMiddleware = newCORSMiddleware;
          handler2 = corsMiddleware handler1
      in handler2)"

section \<open>Concrete inputs\<close>

text \<open>A fresh response writer, an environment, requests, a configuration and a store
  with one record owned by \<open>alice\<close>, for evaluating the handlers.\<close>

definition example_writer :: ResponseWriter where
  "example_writer = \<lparr>Headers = Map.empty, Status = None, Written = []\<rparr>"

definition example_env :: Env where
  "example_env = \<lparr>AuthNow = 11 * Second, NewID = ''id-1'', StoreNow = 12 * Second, RangeOrder = []\<rparr>"

definition example_request :: "string \<Rightarrow> string \<Rightarrow> string \<Rightarrow> createCommentRequest option \<Rightarrow> Request" where
  "example_request method path auth b =
     \<lparr>Method = method, Path = path,
      Header = (if auth = [] then Map.empty else [''Authorization'' \<mapsto> auth]),
      Body = b, Ctx = \<lparr>Err = None, Values = Map.empty\<rparr>\<rparr>"

definition example_config :: Config where
  "example_config = \<lparr>DatabaseURL = ''memory://'', JWTSecret = ''secret'', Environment = ''test''\<rparr>"

text \<open>The request as the authentication middleware hands it on for the subject \<open>user\<close>.\<close>

definition authenticated :: "string \<Rightarrow> Request \<Rightarrow> Request" where
  "authenticated user r =
     r\<lparr>Ctx := WithValue (WithValue (Ctx r) UserIDKey user) UserRoleKey ''user''\<rparr>"

text \<open>The same request after its context was cancelled.\<close>

definition cancelled :: "Request \<Rightarrow> Request" where
  "cancelled r = r\<lparr>Ctx := (Ctx r)\<lparr>Err := Some Canceled\<rparr>\<rparr>"

definition example_store :: CommentStore where
  "example_store =
     [''id-1'' \<mapsto> \<lparr>ID = ''id-1'', Content = ''hello'', Author = ''al'',
                    CreatedAt = 5 * Second, UserID = ''alice''\<rparr>]"

section \<open>Properties of the store\<close>

text \<open>
  C1. \<open>Update\<close> on a stored record writes a record that has the draft's content and
  author and the stored record's identifier, creation time and owner, whatever the
  draft carries in those three fields; it returns that same record, and no other key
  of the store changes.
\<close>

theorem Update_pins_identity:
  assumes "Err ctx = None" and "s cid = Some existing"
  shows "Update ctx cid c s =
           (Inr \<lparr>ID = ID existing, Content = Content c, Author = Author c,
                 CreatedAt = CreatedAt existing, UserID = UserID existing\<rparr>,
            s(cid \<mapsto> \<lparr>ID = ID existing, Content = Content c, Author = Author c,
                       CreatedAt = CreatedAt existing, UserID = UserID existing\<rparr>))"
  using assms by (cases c) (simp add: Update_def Let_def)

theorem Update_pins_identity_witness:
  "Update \<lparr>Err = None, Values = Map.empty\<rparr> ''k''
       \<lparr>ID = ''forged'', Content = ''new'', Author = ''bob'', CreatedAt = 99, UserID = ''mallory''\<rparr>
       [''k'' \<mapsto> \<lparr>ID = ''k'', Content = ''old'', Author = ''al'', CreatedAt = 7, UserID = ''alice''\<rparr>]
     = (Inr \<lparr>ID = ''k'', Content = ''new'', Author = ''bob'', CreatedAt = 7, UserID = ''alice''\<rparr>,
        [''k'' \<mapsto> \<lparr>ID = ''k'', Content = ''new'', Author = ''bob'', CreatedAt = 7, UserID = ''alice''\<rparr>])"
  using Update_pins_identity [of "\<lparr>Err = None, Values = Map.empty\<rparr>"
      "[''k'' \<mapsto> \<lparr>ID = ''k'', Content = ''old'', Author = ''al'', CreatedAt = 7, UserID = ''alice''\<rparr>]"
      "''k''"
      "\<lparr>ID = ''k'', Content = ''old'', Author = ''al'', CreatedAt = 7, UserID = ''alice''\<rparr>"
      "\<lparr>ID = ''forged'', Content = ''new'', Author = ''bob'', CreatedAt = 99, UserID = ''mallory''\<rparr>"]
  by simp

text \<open>
  C5. When the context is already done, each of the nine operations returns the
  context's error, and the operations that write leave the map as it was. (The reading
  operations have no map to return.)
\<close>

theorem cancelled_context_is_noop:
  assumes "Err ctx = Some e"
  shows "Create ctx newID now c s = (Inl (CtxErr e), s)
       \<and> Get ctx cid s = Inl (CtxErr e)
       \<and> List ctx ks s = Inl (CtxErr e)
       \<and> Update ctx cid c s = (Inl (CtxErr e), s)
       \<and> Delete ctx cid s = (Some (CtxErr e), s)
       \<and> ListByUser ctx ks userID s = Inl (CtxErr e)
       \<and> DeleteByUser ctx userID s = (Some (CtxErr e), s)
       \<and> DeleteOlderThan ctx now age s = (Some (CtxErr e), s)
       \<and> Count ctx s = Inl (CtxErr e)"
  using assms
  by (simp add: Create_def Get_def List_def Update_def Delete_def ListByUser_def
      DeleteByUser_def DeleteOlderThan_def Count_def Let_def)

theorem cancelled_context_is_noop_witness:
  "Create \<lparr>Err = Some Canceled, Values = Map.empty\<rparr> ''n'' 5
       \<lparr>ID = [], Content = ''x'', Author = ''y'', CreatedAt = 0, UserID = ''u''\<rparr> Map.empty
     = (Inl (CtxErr Canceled), Map.empty)
   \<and> Delete \<lparr>Err = Some Canceled, Values = Map.empty\<rparr> ''k''
       [''k'' \<mapsto> \<lparr>ID = ''k'', Content = ''x'', Author = ''y'', CreatedAt = 0, UserID = ''u''\<rparr>]
     = (Some (CtxErr Canceled),
        [''k'' \<mapsto> \<lparr>ID = ''k'', Content = ''x'', Author = ''y'', CreatedAt = 0, UserID = ''u''\<rparr>])"
  using cancelled_context_is_noop [of "\<lparr>Err = Some Canceled, Values = Map.empty\<rparr>" Canceled
      "''n''" 5 "\<lparr>ID = [], Content = ''x'', Author = ''y'', CreatedAt = 0, UserID = ''u''\<rparr>"
      Map.empty]
    cancelled_context_is_noop [of "\<lparr>Err = Some Canceled, Values = Map.empty\<rparr>" Canceled
      _ _ _
      "[''k'' \<mapsto> \<lparr>ID = ''k'', Content = ''x'', Author = ''y'', CreatedAt = 0, UserID = ''u''\<rparr>]"
      "''k''"]
  by simp

text \<open>
  C8. With a live context, \<open>Create\<close> returns a record, and \<open>Get\<close> on that record's
  identifier in the resulting store (under a live context) returns the same record.
\<close>

theorem Get_after_Create:
  assumes "Err ctx = None" and "Err ctx' = None"
  shows "\<exists>r s'. Create ctx newID now c s = (Inr r, s') \<and> Get ctx' (ID r) s' = Inr r"
  using assms by (simp add: Create_def Get_def Let_def)

theorem Get_after_Create_witness:
  "\<exists>r s'. Create \<lparr>Err = None, Values = Map.empty\<rparr> ''n'' 5
        \<lparr>ID = [], Content = ''x'', Author = ''y'', CreatedAt = 0, UserID = ''u''\<rparr> Map.empty
      = (Inr r, s')
    \<and> Get \<lparr>Err = None, Values = Map.empty\<rparr> (ID r) s' = Inr r"
  using Get_after_Create [of "\<lparr>Err = None, Values = Map.empty\<rparr>" "\<lparr>Err = None, Values = Map.empty\<rparr>"]
  by simp

text \<open>
  The negated age in \<open>DeleteOlderThan\<close>: an age inside the range of the type negates as
  an integer does, and the least \<open>int64\<close> is its own negation, which puts the cutoff far
  in the past.
\<close>

lemma int64_in_range: "- (2 ^ 63) \<le> x \<Longrightarrow> x < 2 ^ 63 \<Longrightarrow> int64 x = x"
  by (simp add: int64_def)

lemma int64_neg_min: "int64 (- (- (2 ^ 63))) = - (2 ^ 63)"
  by (simp add: int64_def)

section \<open>Properties of the token service\<close>



lemma DecodeToken_Compact:
  "DecodeToken lib (Compact lib (SigningString lib (SigningMethodHMAC h) c) sig)
     = Inr \<lparr>TokenMethod = SigningMethodHMAC h, TokenClaims = asJSON c,
            Signed = SigningString lib (SigningMethodHMAC h) c,
            Signature = sig, Valid = False\<rparr>"
  using Rep_jwt_library [of lib]
  by (simp add: lossless_def DecodeToken_def Compact_def SigningString_def)

lemma Rep_example_library: "Rep_jwt_library example_library = example_functions"
  by (simp add: example_library_def Abs_jwt_library_inverse lossless_example)

lemma DecodeToken_example_bad: "DecodeToken example_library ''bad'' = Inl ErrTokenMalformed"
  by (simp add: DecodeToken_def Rep_example_library example_functions_def example_decode_def)

lemma xor_example: "xorByte 0x5C (CHR ''o'') \<noteq> xorByte 0x5C (CHR ''s'')"
  by (simp add: xorByte_def)



lemma ValidateToken_Compact:
  "ValidateToken lib m now (Compact lib (SigningString lib (SigningMethodHMAC h) c) sig) =
     (if sig \<noteq> HMAC lib h (secretKey m) (SigningString lib (SigningMethodHMAC h) c)
      then Inl (InvalidToken ErrTokenSignatureInvalid)
      else (case Validate now (asJSON c) of
              [] \<Rightarrow> Inr (asJSON c)
            | e # es \<Rightarrow> Inl (InvalidToken (ErrTokenInvalidClaims (e # es)))))"
  by (simp add: ValidateToken_def ParseWithClaims_def DecodeToken_Compact keyFunc_def Verify_def
      split: list.splits)

lemma GenerateToken_eq:
  "GenerateToken lib m userID role t1 t2 t3 =
     Inr (Compact lib
            (SigningString lib (SigningMethodHMAC SHA256)
               \<lparr>ClaimsUserID = userID, Role = role,
                ExpiresAt = Some ((t1 + expiry m) div Second * Second),
                IssuedAt = Some (t2 div Second * Second),
                NotBefore = Some (t3 div Second * Second)\<rparr>)
            (HMAC lib SHA256 (secretKey m)
               (SigningString lib (SigningMethodHMAC SHA256)
                  \<lparr>ClaimsUserID = userID, Role = role,
                   ExpiresAt = Some ((t1 + expiry m) div Second * Second),
                   IssuedAt = Some (t2 div Second * Second),
                   NotBefore = Some (t3 div Second * Second)\<rparr>)))"
  by (simp add: GenerateToken_def SignedString_def Sign_def NewNumericDate_def Let_def)

lemma Second_pos: "0 < Second" by (simp add: Second_def)

lemma trunc_le: "t div Second * Second \<le> t"
  using Second_pos by (metis mult.commute pos_mod_sign minus_mult_div_eq_mod diff_ge_0_iff_ge)

lemma trunc_trunc: "t div Second * Second div Second * Second = t div Second * Second"
  using Second_pos by simp

lemma asJSON_example_claims: "asJSON example_claims = example_claims"
  by (simp add: asJSON_def example_claims_def ToValidUTF8_def Second_def)

lemma Validate_example_claims:
  "Validate (11 * Second) example_claims = []"
  "Validate (86410 * Second + 200000000) example_claims = [ErrTokenExpired]"
  by (simp_all add: Validate_def example_claims_def Second_def)


lemma ValidateToken_example_token:
  "ValidateToken example_library m now (example_token key c) =
     (if HMAC example_library SHA256 key (SigningString example_library (SigningMethodHMAC SHA256) c)
           \<noteq> HMAC example_library SHA256 (secretKey m)
               (SigningString example_library (SigningMethodHMAC SHA256) c)
      then Inl (InvalidToken ErrTokenSignatureInvalid)
      else (case Validate now (asJSON c) of
              [] \<Rightarrow> Inr (asJSON c)
            | e # es \<Rightarrow> Inl (InvalidToken (ErrTokenInvalidClaims (e # es)))))"
  unfolding example_token_def by (rule ValidateToken_Compact)

lemma GenerateToken_example:
  "GenerateToken example_library (NewJWTManager key (24 * Hour)) ''test'' ''user''
     (10 * Second + 500000000) (10 * Second + 500000000) (10 * Second + 500000000)
   = Inr (example_token key example_claims)"
  by (simp add: GenerateToken_eq example_token_def example_claims_def NewJWTManager_def
      Hour_def Second_def)





text \<open>
  C4. For every subject and role, \<open>GenerateToken\<close> returns a token, and \<open>ValidateToken\<close>
  under the same manager, at an instant not before the clock reading for \<open>NotBefore\<close> and
  before the token's expiry (the reading for \<open>ExpiresAt\<close> plus the validity period, cut
  to whole seconds), returns claims whose subject and role are the issued ones as JSON
  carries them: with every byte that is not part of well-formed UTF-8 replaced by U+FFFD,
  hence exactly the issued ones when they are valid UTF-8.
\<close>

theorem issue_then_validate:
  assumes "t3 \<le> now" and "now < (t1 + expiry m) div Second * Second"
  shows "\<exists>tokenStr claims.
           GenerateToken lib m userID role t1 t2 t3 = Inr tokenStr
         \<and> ValidateToken lib m now tokenStr = Inr claims
         \<and> ClaimsUserID claims = ToValidUTF8 userID \<and> Role claims = ToValidUTF8 role
         \<and> (ToValidUTF8 userID = userID \<and> ToValidUTF8 role = role \<longrightarrow>
              ClaimsUserID claims = userID \<and> Role claims = role)"
proof -
  let ?c = "\<lparr>ClaimsUserID = userID, Role = role,
              ExpiresAt = Some ((t1 + expiry m) div Second * Second),
              IssuedAt = Some (t2 div Second * Second),
              NotBefore = Some (t3 div Second * Second)\<rparr>"
  have nbf: "t3 div Second * Second \<le> now"
    using trunc_le [of t3] assms(1) by linarith
  have v: "Validate now (asJSON ?c) = []"
    using nbf assms(2) Second_pos by (simp add: Validate_def asJSON_def)
  have "ValidateToken lib m now
          (Compact lib (SigningString lib (SigningMethodHMAC SHA256) ?c)
             (HMAC lib SHA256 (secretKey m) (SigningString lib (SigningMethodHMAC SHA256) ?c)))
        = Inr (asJSON ?c)"
    by (simp add: ValidateToken_Compact v)
  then show ?thesis
    by (simp add: GenerateToken_eq asJSON_def)
qed

theorem issue_then_validate_witness:
  "\<exists>tokenStr claims.
     GenerateToken example_library (NewJWTManager ''secret'' (24 * Hour)) ''test'' ''user''
       (10 * Second + 500) (10 * Second + 600) (10 * Second + 700) = Inr tokenStr
   \<and> ValidateToken example_library (NewJWTManager ''secret'' (24 * Hour)) (11 * Second) tokenStr = Inr claims
   \<and> ClaimsUserID claims = ''test'' \<and> Role claims = ''user''"
  using issue_then_validate [of "10 * Second + 700" "11 * Second" "10 * Second + 500"
      "NewJWTManager ''secret'' (24 * Hour)" example_library "''test''" "''user''" "10 * Second + 600"]
  by (auto simp: NewJWTManager_def Hour_def Second_def ToValidUTF8_def)

text \<open>
  The claim as it stands fails twice. The subject that is the single byte FF comes back
  as U+FFFD. And a token issued at 10.5 seconds for 24 hours expires at 86410 seconds, so
  at 86410.2 seconds, less than 24 hours after it was issued, it is rejected as expired.
\<close>

theorem invalid_utf8_or_last_second_counterexample:
  "GenerateToken example_library (NewJWTManager ''secret'' (24 * Hour)) [CHR 0xFF] ''user''
       (10 * Second + 500000000) (10 * Second + 500000000) (10 * Second + 500000000)
     = Inr (example_token ''secret'' (example_claims\<lparr>ClaimsUserID := [CHR 0xFF]\<rparr>))
   \<and> ValidateToken example_library (NewJWTManager ''secret'' (24 * Hour)) (11 * Second)
        (example_token ''secret'' (example_claims\<lparr>ClaimsUserID := [CHR 0xFF]\<rparr>))
     = Inr (example_claims\<lparr>ClaimsUserID := [CHR 0xEF, CHR 0xBF, CHR 0xBD]\<rparr>)
   \<and> ClaimsUserID (example_claims\<lparr>ClaimsUserID := [CHR 0xEF, CHR 0xBF, CHR 0xBD]\<rparr>) \<noteq> [CHR 0xFF]
   \<and> GenerateToken example_library (NewJWTManager ''secret'' (24 * Hour)) ''test'' ''user''
       (10 * Second + 500000000) (10 * Second + 500000000) (10 * Second + 500000000)
     = Inr (example_token ''secret'' example_claims)
   \<and> 10 * Second + 500000000 \<le> 86410 * Second + 200000000
   \<and> 86410 * Second + 200000000 < (10 * Second + 500000000) + 24 * Hour
   \<and> ValidateToken example_library (NewJWTManager ''secret'' (24 * Hour)) (86410 * Second + 200000000)
        (example_token ''secret'' example_claims)
     = Inl (InvalidToken (ErrTokenInvalidClaims [ErrTokenExpired]))"
proof -
  let ?m = "NewJWTManager ''secret'' (24 * Hour)"
  let ?t = "10 * Second + 500000000"
  have g: "GenerateToken example_library ?m [CHR 0xFF] ''user'' ?t ?t ?t
             = Inr (example_token ''secret'' (example_claims\<lparr>ClaimsUserID := [CHR 0xFF]\<rparr>))"
    by (simp add: GenerateToken_eq example_token_def example_claims_def NewJWTManager_def
        Hour_def Second_def)
  have j: "asJSON (example_claims\<lparr>ClaimsUserID := [CHR 0xFF]\<rparr>)
             = example_claims\<lparr>ClaimsUserID := [CHR 0xEF, CHR 0xBF, CHR 0xBD]\<rparr>"
    by (simp add: asJSON_def example_claims_def ToValidUTF8_def Second_def)
  have v: "Validate (11 * Second) (example_claims\<lparr>ClaimsUserID := [CHR 0xEF, CHR 0xBF, CHR 0xBD]\<rparr>) = []"
    by (simp add: Validate_def example_claims_def Second_def)
  have a: "ValidateToken example_library ?m (11 * Second)
             (example_token ''secret'' (example_claims\<lparr>ClaimsUserID := [CHR 0xFF]\<rparr>))
           = Inr (example_claims\<lparr>ClaimsUserID := [CHR 0xEF, CHR 0xBF, CHR 0xBD]\<rparr>)"
    by (simp add: ValidateToken_example_token NewJWTManager_def j v)
  have b: "ValidateToken example_library ?m (86410 * Second + 200000000)
             (example_token ''secret'' example_claims)
           = Inl (InvalidToken (ErrTokenInvalidClaims [ErrTokenExpired]))"
    by (simp add: ValidateToken_example_token NewJWTManager_def asJSON_example_claims
        Validate_example_claims)
  have w: "10 * Second + 500000000 \<le> 86410 * Second + 200000000"
    "86410 * Second + 200000000 < (10 * Second + 500000000) + 24 * Hour"
    by (simp_all add: Second_def Hour_def)
  from g a b w GenerateToken_example [of "''secret''"] show ?thesis
    by simp
qed

section \<open>Properties of the HTTP layer\<close>

lemma Status_Error: "Status w = None \<Longrightarrow> Status (Error w msg code) = Some code"
  by (simp add: Error_def Write_def WriteHeader_def Header_Set_def Let_def)

lemma Written_Error: "Written (Error w msg code) = Written w @ [msg]"
  by (simp add: Error_def Write_def WriteHeader_def Header_Set_def Let_def)

lemma Status_WriteHeader: "Status w = None \<Longrightarrow> Status (WriteHeader w code) = Some code"
  by (simp add: WriteHeader_def)

lemma Status_Header_Set: "Status (Header_Set w k v) = Status w"
  by (simp add: Header_Set_def)

lemma Header_Get_Body: "Header_Get (r\<lparr>Body := b\<rparr>) k = Header_Get r k"
  by (simp add: Header_Get_def)

text \<open>
  C10. The authentication middleware hands a request on unchecked exactly when its path
  is \<open>/healthz\<close> or \<open>/api/v1/login\<close>, compared as whole strings. For every other path
  (such as \<open>/healthz/\<close> or \<open>/api/v1/login/\<close>) it answers 401 itself unless the
  \<open>Authorization\<close> header starts with \<open>Bearer\<close> and a space and the rest validates, and
  only then hands the request on, with the identity in its context.
\<close>

theorem public_paths_exact:
  "(Path r = ''/healthz'' \<or> Path r = ''/api/v1/login'' \<longrightarrow>
      newAuthMiddleware lib secret next env w r st = next env w r st)
   \<and> (Path r \<noteq> ''/healthz'' \<and> Path r \<noteq> ''/api/v1/login'' \<longrightarrow>
        (\<not> HasPrefix (Header_Get r ''Authorization'') ''Bearer '' \<longrightarrow>
           newAuthMiddleware lib secret next env w r st
             = (Error w (Text ''Unauthorized'') StatusUnauthorized, st))
      \<and> (HasPrefix (Header_Get r ''Authorization'') ''Bearer '' \<longrightarrow>
           (case ValidateToken lib (NewJWTManager secret (24 * Hour)) (AuthNow env)
                   (TrimPrefix (Header_Get r ''Authorization'') ''Bearer '') of
              Inl err \<Rightarrow>
                newAuthMiddleware lib secret next env w r st
                  = (Error w (Text ''Invalid token'') StatusUnauthorized, st)
            | Inr claims \<Rightarrow>
                newAuthMiddleware lib secret next env w r st
                  = next env w
                      (r\<lparr>Ctx := WithValue (WithValue (Ctx r) UserIDKey (ClaimsUserID claims))
                                   UserRoleKey (Role claims)\<rparr>) st)))"
  by (simp add: newAuthMiddleware_def Let_def split: sum.splits)

theorem public_paths_exact_witness:
  "newAuthMiddleware example_library ''secret'' handleComments example_env example_writer
      (example_request ''GET'' ''/healthz'' [] None) Map.empty
     = handleComments example_env example_writer (example_request ''GET'' ''/healthz'' [] None) Map.empty
   \<and> newAuthMiddleware example_library ''secret'' handleComments example_env example_writer
      (example_request ''GET'' ''/healthz/'' [] None) Map.empty
     = (Error example_writer (Text ''Unauthorized'') StatusUnauthorized, Map.empty)
   \<and> newAuthMiddleware example_library ''secret'' handleComments example_env example_writer
      (example_request ''POST'' ''/api/v1/login/'' ''Bearer bad'' None) Map.empty
     = (Error example_writer (Text ''Invalid token'') StatusUnauthorized, Map.empty)"
  using public_paths_exact [of "example_request ''GET'' ''/healthz'' [] None" example_library
        "''secret''" handleComments example_env example_writer Map.empty]
    public_paths_exact [of "example_request ''GET'' ''/healthz/'' [] None" example_library
        "''secret''" handleComments example_env example_writer Map.empty]
    public_paths_exact [of "example_request ''POST'' ''/api/v1/login/'' ''Bearer bad'' None" example_library
        "''secret''" handleComments example_env example_writer Map.empty]
  by (simp add: example_request_def Header_Get_def HasPrefix_def TrimPrefix_def
      ValidateToken_def ParseWithClaims_def DecodeToken_example_bad example_env_def)

text \<open>
  C2. A request to a path other than the two public ones, without a valid bearer token
  (no \<open>Bearer\<close> prefix in the \<open>Authorization\<close> header, or a token that \<open>ValidateToken\<close>
  rejects), is answered before any downstream handler: the response and the store are the
  same for every router and every body, and the store is unchanged. The status is 401,
  except that the CORS middleware, which comes first, answers every \<open>OPTIONS\<close> request
  with 200.
\<close>

theorem unauthenticated_is_rejected:
  assumes "Path r \<noteq> ''/healthz''" and "Path r \<noteq> ''/api/v1/login''"
    and "\<not> HasPrefix (Header_Get r ''Authorization'') ''Bearer '' \<or>
         (\<exists>err. ValidateToken lib (NewJWTManager (JWTSecret config) (24 * Hour)) (AuthNow env)
                  (TrimPrefix (Header_Get r ''Authorization'') ''Bearer '') = Inl err)"
    and "Status w = None"
  shows "\<exists>w'. (\<forall>mux b. NewServer lib config mux env w (r\<lparr>Body := b\<rparr>) st = (w', st))
             \<and> Status w' = Some (if Method r = ''OPTIONS'' then StatusOK else StatusUnauthorized)"
proof (cases "Method r = ''OPTIONS''")
  case True
  then show ?thesis
    using assms(4)
    by (simp add: NewServer_def newCORSMiddleware_def Let_def Status_WriteHeader Status_Header_Set)
next
  case False
  show ?thesis
  proof (cases "HasPrefix (Header_Get r ''Authorization'') ''Bearer ''")
    case nopre: False
    then show ?thesis
      using False assms(1,2,4)
      by (simp add: NewServer_def newCORSMiddleware_def newAuthMiddleware_def Let_def
          Status_Error Status_Header_Set Header_Get_Body)
  next
    case pre: True
    with assms(3) obtain err where
      "ValidateToken lib (NewJWTManager (JWTSecret config) (24 * Hour)) (AuthNow env)
         (TrimPrefix (Header_Get r ''Authorization'') ''Bearer '') = Inl err"
      by blast
    then show ?thesis
      using False pre assms(1,2,4)
      by (simp add: NewServer_def newCORSMiddleware_def newAuthMiddleware_def Let_def
          Status_Error Status_Header_Set Header_Get_Body)
  qed
qed

theorem unauthenticated_is_rejected_witness:
  "\<exists>w'. (\<forall>mux b. NewServer example_library example_config mux example_env example_writer
                    ((example_request ''POST'' ''/api/v1/comments'' [] None)\<lparr>Body := b\<rparr>) Map.empty
                  = (w', Map.empty))
       \<and> Status w' = Some StatusUnauthorized"
  using unauthenticated_is_rejected [of "example_request ''POST'' ''/api/v1/comments'' [] None"
      example_library example_config example_env example_writer Map.empty]
  by (simp add: example_request_def Header_Get_def HasPrefix_def example_writer_def)

text \<open>An \<open>OPTIONS\<close> request without a token to \<open>/api/v1/comments\<close> gets 200, not 401.\<close>

theorem options_without_token_counterexample:
  "Path (example_request ''OPTIONS'' ''/api/v1/comments'' [] None) \<noteq> ''/healthz''
   \<and> Path (example_request ''OPTIONS'' ''/api/v1/comments'' [] None) \<noteq> ''/api/v1/login''
   \<and> Header (example_request ''OPTIONS'' ''/api/v1/comments'' [] None) ''Authorization'' = None
   \<and> Status (fst (NewServer example_library example_config handleComments example_env example_writer
                    (example_request ''OPTIONS'' ''/api/v1/comments'' [] None) Map.empty))
       = Some StatusOK
   \<and> Status (fst (NewServer example_library example_config handleComments example_env example_writer
                    (example_request ''OPTIONS'' ''/api/v1/comments'' [] None) Map.empty))
       \<noteq> Some StatusUnauthorized"
  by (simp add: example_request_def NewServer_def newCORSMiddleware_def Let_def example_writer_def
      WriteHeader_def Header_Set_def StatusOK_def StatusUnauthorized_def)

lemma finite_dom_Valid: "finite (dom (createCommentRequest_Valid req))"
  by (simp add: createCommentRequest_Valid_def Let_def)

lemma card_dom_Valid: "card (dom (createCommentRequest_Valid req)) > 0 \<longleftrightarrow> createCommentRequest_Valid req \<noteq> Map.empty"
  using finite_dom_Valid [of req] by (auto simp: card_gt_0_iff)

lemma Valid_empty_iff:
  "createCommentRequest_Valid req = Map.empty \<longleftrightarrow>
     TrimSpace (ReqContent req) \<noteq> [] \<and> length (ReqContent req) \<le> 1000
   \<and> TrimSpace (ReqAuthor req) \<noteq> []"
  by (auto simp: createCommentRequest_Valid_def Let_def)

lemma decodeValid_None: "Body r = None \<Longrightarrow> decodeValid r = (\<lparr>ReqContent = [], ReqAuthor = []\<rparr>, Map.empty, Some DecodeJSON)"
  by (simp add: decodeValid_def)

lemma decodeValid_ok:
  "Body r = Some req \<Longrightarrow> createCommentRequest_Valid req = Map.empty \<Longrightarrow> decodeValid r = (req, Map.empty, None)"
  by (simp add: decodeValid_def)

lemma decodeValid_problems:
  "Body r = Some req \<Longrightarrow> createCommentRequest_Valid req \<noteq> Map.empty \<Longrightarrow>
     decodeValid r = (req, createCommentRequest_Valid req, Some (Invalid ''api.createCommentRequest'' (card (dom (createCommentRequest_Valid req)))))"
  using card_dom_Valid [of req] by (simp add: decodeValid_def Let_def)

lemma decodeValid_cases:
  obtains (bad) "decodeValid r = (\<lparr>ReqContent = [], ReqAuthor = []\<rparr>, Map.empty, Some DecodeJSON)" "Body r = None"
  | (invalid) req where "Body r = Some req" "createCommentRequest_Valid req \<noteq> Map.empty"
      "decodeValid r = (req, createCommentRequest_Valid req, Some (Invalid ''api.createCommentRequest'' (card (dom (createCommentRequest_Valid req)))))"
  | (ok) req where "Body r = Some req" "createCommentRequest_Valid req = Map.empty" "decodeValid r = (req, Map.empty, None)"
proof (cases "Body r")
  case None
  then show ?thesis using decodeValid_None bad by blast
next
  case (Some req)
  then show ?thesis
    using decodeValid_ok [of r req] decodeValid_problems [of r req] invalid ok
    by (cases "createCommentRequest_Valid req = Map.empty") blast+
qed

lemma TrimPrefix_append: "TrimPrefix (p @ s) p = s"
  by (simp add: TrimPrefix_def HasPrefix_def)

lemma spaceWidthLeft_Nil: "spaceWidthLeft [] = 0"
  by (simp add: spaceWidthLeft_def whiteSpace_def)

lemma TrimSpace_Nil: "TrimSpace [] = []"
  by (simp add: TrimSpace_def TrimLeft.simps [of "[]"] TrimRight.simps [of "[]"]
      spaceWidthLeft_def spaceWidthRight_def whiteSpace_def)

lemma TrimSpace_x: "TrimSpace ''x'' = ''x''"
  by (simp add: TrimSpace_def TrimLeft.simps [of "''x''"] TrimRight.simps [of "''x''"]
      spaceWidthLeft_def spaceWidthRight_def whiteSpace_def suffix_to_prefix)

lemma TrimSpace_ideographic_space: "TrimSpace [CHR 0xE3, CHR 0x80, CHR 0x80] = []"
  by (simp add: TrimSpace_def TrimLeft.simps [of "[CHR 0xE3, CHR 0x80, CHR 0x80]"]
      TrimLeft.simps [of "[]"] TrimRight.simps [of "[]"]
      spaceWidthLeft_def spaceWidthRight_def whiteSpace_def)

lemma TrimSpace_sp: "TrimSpace '' x '' = ''x''"
  by (simp add: TrimSpace_def TrimLeft.simps [of "'' x ''"] TrimLeft.simps [of "''x ''"] TrimRight.simps [of "''x ''"] TrimRight.simps [of "''x''"]
      spaceWidthLeft_def spaceWidthRight_def whiteSpace_def suffix_to_prefix)

lemma Valid_empty_content:
  "createCommentRequest_Valid \<lparr>ReqContent = [], ReqAuthor = ''x''\<rparr> = [''content'' \<mapsto> ''content is required'']"
  by (simp add: createCommentRequest_Valid_def Let_def TrimSpace_Nil TrimSpace_x)

lemma Valid_ok_example:
  "createCommentRequest_Valid \<lparr>ReqContent = ''x'', ReqAuthor = ''x''\<rparr> = Map.empty"
  by (simp add: createCommentRequest_Valid_def Let_def TrimSpace_x)

text \<open>
  C6. For a stored record whose owner differs from the authenticated identity, a
  \<open>PUT\<close> or \<open>DELETE\<close> on \<open>/api/v1/comments/<id>\<close> never changes the store. A \<open>PUT\<close> whose
  body fails decoding or validation is answered 400, before the record is loaded. A
  \<open>DELETE\<close>, and a \<open>PUT\<close> whose body decodes and passes validation, is answered 403 while
  the request's context is live and 500 when it is done.
\<close>

theorem not_owner_is_forbidden:
  assumes "Path r = ''/api/v1/comments/'' @ cid" and "cid \<noteq> []"
    and "st cid = Some existing"
    and "UserID existing \<noteq> UserIDFromContext (Ctx r)"
    and "Method r = ''PUT'' \<or> Method r = ''DELETE''"
    and "Status w = None"
  shows "snd (handleComment env w r st) = st
       \<and> (Method r = ''PUT''
            \<and> (Body r = None
                \<or> (\<exists>req. Body r = Some req \<and> createCommentRequest_Valid req \<noteq> Map.empty)) \<longrightarrow>
            Status (fst (handleComment env w r st)) = Some StatusBadRequest)
       \<and> (Method r = ''DELETE''
            \<or> (\<exists>req. Body r = Some req \<and> createCommentRequest_Valid req = Map.empty) \<longrightarrow>
            (Err (Ctx r) = None \<longrightarrow>
               handleComment env w r st = (Error w (Text ''Forbidden'') StatusForbidden, st)
             \<and> Status (fst (handleComment env w r st)) = Some StatusForbidden)
          \<and> (Err (Ctx r) \<noteq> None \<longrightarrow>
               handleComment env w r st
                 = (Error w (Text ''Internal Server Error'') StatusInternalServerError, st)
             \<and> Status (fst (handleComment env w r st)) = Some StatusInternalServerError))"
proof -
  have cid: "TrimPrefix (Path r) ''/api/v1/comments/'' = cid"
    unfolding assms(1) by (rule TrimPrefix_append)
  have get: "Get (Ctx r) cid st = (case Err (Ctx r) of Some e \<Rightarrow> Inl (CtxErr e) | None \<Rightarrow> Inr existing)"
    using assms(3) by (simp add: Get_def split: option.splits)
  have delete_not_put: "Method r = ''DELETE'' \<Longrightarrow> Method r \<noteq> ''PUT''"
    by simp
  have bad: "handleComment env w r st = (Error w (ErrorText err) StatusBadRequest, st)"
    if "Method r = ''PUT''" and "decodeValid r = (req, problems, Some err)" for req problems err
    using that cid assms(2) by (simp add: handleComment_def Let_def)
  have checked: "handleComment env w r st =
      (case Err (Ctx r) of
         None \<Rightarrow> (Error w (Text ''Forbidden'') StatusForbidden, st)
       | Some e \<Rightarrow> (Error w (Text ''Internal Server Error'') StatusInternalServerError, st))"
    if "Method r = ''DELETE'' \<or> (\<exists>req. Body r = Some req \<and> createCommentRequest_Valid req = Map.empty)"
  proof (cases "Method r = ''PUT''")
    case True
    with that obtain req where "Body r = Some req" "createCommentRequest_Valid req = Map.empty"
      by auto
    then have "decodeValid r = (req, Map.empty, None)" by (rule decodeValid_ok)
    then show ?thesis
      using True cid get assms(2,4) by (simp add: handleComment_def Let_def split: option.splits)
  next
    case False
    with assms(5) have "Method r = ''DELETE''" by simp
    then show ?thesis
      using cid get assms(2,4) by (simp add: handleComment_def Let_def split: option.splits)
  qed
  have frame: "snd (handleComment env w r st) = st"
  proof (cases r rule: decodeValid_cases)
    case bad': bad
    show ?thesis
    proof (cases "Method r = ''PUT''")
      case True
      then show ?thesis using bad [OF True bad'(1)] by simp
    next
      case False
      with assms(5) have "Method r = ''DELETE''" by simp
      then show ?thesis using checked by (simp split: option.splits)
    qed
  next
    case (invalid req)
    show ?thesis
    proof (cases "Method r = ''PUT''")
      case True
      then show ?thesis using bad [OF True invalid(3)] by simp
    next
      case False
      with assms(5) have "Method r = ''DELETE''" by simp
      then show ?thesis using checked by (simp split: option.splits)
    qed
  next
    case (ok req)
    then show ?thesis using checked by (auto split: option.splits)
  qed
  have rejected: "Status (fst (handleComment env w r st)) = Some StatusBadRequest"
    if "Method r = ''PUT''"
      and "Body r = None \<or> (\<exists>req. Body r = Some req \<and> createCommentRequest_Valid req \<noteq> Map.empty)"
  proof -
    from that(2) obtain req problems err where "decodeValid r = (req, problems, Some err)"
      using decodeValid_None [of r] decodeValid_problems [of r] by blast
    from bad [OF that(1) this] show ?thesis
      using assms(6) by (simp add: Status_Error)
  qed
  from frame rejected checked show ?thesis
    using assms(6) by (auto simp: Status_Error)
qed

theorem not_owner_is_forbidden_witness:
  "handleComment example_env example_writer
      (authenticated ''test'' (example_request ''DELETE'' ''/api/v1/comments/id-1'' [] None))
      example_store
     = (Error example_writer (Text ''Forbidden'') StatusForbidden, example_store)
   \<and> handleComment example_env example_writer
      (authenticated ''test'' (example_request ''PUT'' ''/api/v1/comments/id-1'' []
         (Some \<lparr>ReqContent = ''x'', ReqAuthor = ''x''\<rparr>)))
      example_store
     = (Error example_writer (Text ''Forbidden'') StatusForbidden, example_store)
   \<and> Status (Error example_writer (Text ''Forbidden'') StatusForbidden) = Some StatusForbidden
   \<and> Status (fst (handleComment example_env example_writer
        (authenticated ''test'' (example_request ''PUT'' ''/api/v1/comments/id-1'' []
           (Some \<lparr>ReqContent = [], ReqAuthor = ''x''\<rparr>)))
        example_store)) = Some StatusBadRequest
   \<and> snd (handleComment example_env example_writer
        (authenticated ''test'' (example_request ''PUT'' ''/api/v1/comments/id-1'' []
           (Some \<lparr>ReqContent = [], ReqAuthor = ''x''\<rparr>)))
        example_store) = example_store
   \<and> handleComment example_env example_writer
        (cancelled (authenticated ''test'' (example_request ''DELETE'' ''/api/v1/comments/id-1'' [] None)))
        example_store
     = (Error example_writer (Text ''Internal Server Error'') StatusInternalServerError, example_store)"
proof -
  let ?existing = "\<lparr>ID = ''id-1'', Content = ''hello'', Author = ''al'', CreatedAt = 5 * Second,
                     UserID = ''alice''\<rparr>"
  have inst: "snd (handleComment example_env example_writer r example_store) = example_store
       \<and> (Method r = ''PUT''
            \<and> (Body r = None
                \<or> (\<exists>req. Body r = Some req \<and> createCommentRequest_Valid req \<noteq> Map.empty)) \<longrightarrow>
            Status (fst (handleComment example_env example_writer r example_store)) = Some StatusBadRequest)
       \<and> (Method r = ''DELETE''
            \<or> (\<exists>req. Body r = Some req \<and> createCommentRequest_Valid req = Map.empty) \<longrightarrow>
            (Err (Ctx r) = None \<longrightarrow>
               handleComment example_env example_writer r example_store
                 = (Error example_writer (Text ''Forbidden'') StatusForbidden, example_store)
             \<and> Status (fst (handleComment example_env example_writer r example_store)) = Some StatusForbidden)
          \<and> (Err (Ctx r) \<noteq> None \<longrightarrow>
               handleComment example_env example_writer r example_store
                 = (Error example_writer (Text ''Internal Server Error'') StatusInternalServerError,
                    example_store)
             \<and> Status (fst (handleComment example_env example_writer r example_store))
                 = Some StatusInternalServerError))"
    if "Path r = ''/api/v1/comments/'' @ ''id-1''"
      and "UserIDFromContext (Ctx r) = ''test''"
      and "Method r = ''PUT'' \<or> Method r = ''DELETE''" for r
    using that
    by (intro not_owner_is_forbidden [where cid = "''id-1''" and existing = ?existing])
      (simp_all add: example_store_def example_writer_def)
  have d: "handleComment example_env example_writer
      (authenticated ''test'' (example_request ''DELETE'' ''/api/v1/comments/id-1'' [] None))
      example_store
     = (Error example_writer (Text ''Forbidden'') StatusForbidden, example_store)"
    using inst [of "authenticated ''test'' (example_request ''DELETE'' ''/api/v1/comments/id-1'' [] None)"]
    by (simp add: authenticated_def example_request_def UserIDFromContext_def WithValue_def)
  have p: "handleComment example_env example_writer
      (authenticated ''test'' (example_request ''PUT'' ''/api/v1/comments/id-1'' []
         (Some \<lparr>ReqContent = ''x'', ReqAuthor = ''x''\<rparr>)))
      example_store
     = (Error example_writer (Text ''Forbidden'') StatusForbidden, example_store)"
    using inst [of "authenticated ''test'' (example_request ''PUT'' ''/api/v1/comments/id-1'' []
         (Some \<lparr>ReqContent = ''x'', ReqAuthor = ''x''\<rparr>))"]
    by (simp add: authenticated_def example_request_def UserIDFromContext_def WithValue_def
        Valid_ok_example)
  have b: "Status (fst (handleComment example_env example_writer
        (authenticated ''test'' (example_request ''PUT'' ''/api/v1/comments/id-1'' []
           (Some \<lparr>ReqContent = [], ReqAuthor = ''x''\<rparr>)))
        example_store)) = Some StatusBadRequest
   \<and> snd (handleComment example_env example_writer
        (authenticated ''test'' (example_request ''PUT'' ''/api/v1/comments/id-1'' []
           (Some \<lparr>ReqContent = [], ReqAuthor = ''x''\<rparr>)))
        example_store) = example_store"
    using inst [of "authenticated ''test'' (example_request ''PUT'' ''/api/v1/comments/id-1'' []
         (Some \<lparr>ReqContent = [], ReqAuthor = ''x''\<rparr>))"]
    by (simp add: authenticated_def example_request_def UserIDFromContext_def WithValue_def
        Valid_empty_content)
  have c: "handleComment example_env example_writer
        (cancelled (authenticated ''test'' (example_request ''DELETE'' ''/api/v1/comments/id-1'' [] None)))
        example_store
     = (Error example_writer (Text ''Internal Server Error'') StatusInternalServerError, example_store)"
    using inst [of "cancelled (authenticated ''test''
                      (example_request ''DELETE'' ''/api/v1/comments/id-1'' [] None))"]
    by (simp add: cancelled_def authenticated_def example_request_def UserIDFromContext_def
        WithValue_def)
  from d p b c show ?thesis
    by (simp add: Status_Error example_writer_def)
qed

text \<open>
  The claim as it stands fails twice: a \<open>PUT\<close> by another subject with an empty content
  gets 400, and a \<open>DELETE\<close> by another subject under a cancelled context gets 500; neither
  gets 403.
\<close>

theorem not_forbidden_counterexample:
  "example_store ''id-1''
     = Some \<lparr>ID = ''id-1'', Content = ''hello'', Author = ''al'', CreatedAt = 5 * Second, UserID = ''alice''\<rparr>
   \<and> UserIDFromContext (Ctx (authenticated ''test'' (example_request ''PUT'' ''/api/v1/comments/id-1'' []
         (Some \<lparr>ReqContent = [], ReqAuthor = ''x''\<rparr>)))) = ''test''
   \<and> Status (fst (handleComment example_env example_writer
        (authenticated ''test'' (example_request ''PUT'' ''/api/v1/comments/id-1'' []
           (Some \<lparr>ReqContent = [], ReqAuthor = ''x''\<rparr>)))
        example_store)) = Some StatusBadRequest
   \<and> Status (fst (handleComment example_env example_writer
        (authenticated ''test'' (example_request ''PUT'' ''/api/v1/comments/id-1'' []
           (Some \<lparr>ReqContent = [], ReqAuthor = ''x''\<rparr>)))
        example_store)) \<noteq> Some StatusForbidden
   \<and> UserIDFromContext (Ctx (cancelled (authenticated ''test''
         (example_request ''DELETE'' ''/api/v1/comments/id-1'' [] None)))) = ''test''
   \<and> Status (fst (handleComment example_env example_writer
        (cancelled (authenticated ''test'' (example_request ''DELETE'' ''/api/v1/comments/id-1'' [] None)))
        example_store)) = Some StatusInternalServerError
   \<and> Status (fst (handleComment example_env example_writer
        (cancelled (authenticated ''test'' (example_request ''DELETE'' ''/api/v1/comments/id-1'' [] None)))
        example_store)) \<noteq> Some StatusForbidden"
  by (simp add: handleComment_def decodeValid_def Let_def Valid_empty_content authenticated_def
      cancelled_def Get_def
      example_request_def example_store_def UserIDFromContext_def WithValue_def example_writer_def
      TrimPrefix_def HasPrefix_def Status_Error StatusBadRequest_def StatusForbidden_def
      StatusInternalServerError_def)

text \<open>
  C7. An authenticated \<open>POST /api/v1/comments\<close> with the body
  \<open>{"content":"","author":"x"}\<close>: the validator reports the problem for \<open>content\<close>, but
  \<open>decodeValid\<close> returns it with an error, so the handler answers 400 through
  \<open>http.Error\<close> with the line of that error; the map of problems is not what is written.
  No record is created.
\<close>

theorem empty_content_response:
  "handleComments example_env example_writer
      (authenticated ''test'' (example_request ''POST'' ''/api/v1/comments'' []
         (Some \<lparr>ReqContent = [], ReqAuthor = ''x''\<rparr>)))
      Map.empty
     = (Error example_writer (ErrorText (Invalid ''api.createCommentRequest'' 1)) StatusBadRequest,
        Map.empty)
   \<and> Written (Error example_writer (ErrorText (Invalid ''api.createCommentRequest'' 1)) StatusBadRequest)
     = [ErrorText (Invalid ''api.createCommentRequest'' 1)]
   \<and> createCommentRequest_Valid \<lparr>ReqContent = [], ReqAuthor = ''x''\<rparr>
     = [''content'' \<mapsto> ''content is required'']"
  by (simp add: handleComments_def decodeValid_def Let_def Valid_empty_content authenticated_def
      example_request_def Written_Error example_writer_def)

text \<open>
  For every \<open>POST\<close>: what the handler appends to the response is never the encoded map
  of problems. Status and store are as validation decides: 201 and one record more
  when content and author are not blank and the content has at most 1000 bytes, 400
  and the same store otherwise.
\<close>

lemma handleComments_POST_never_encodes_problems:
  assumes "Method r = ''POST''"
  shows "Written (fst (handleComments env w r st)) \<noteq> Written w @ [JSON (Problems p)]"
  by (cases r rule: decodeValid_cases)
    (use assms in \<open>auto simp: handleComments_def Let_def Written_Error encode_def Write_def
       WriteHeader_def Header_Set_def Create_def split: option.splits\<close>)

lemma handleComments_POST_outcome:
  assumes "Method r = ''POST''" and "Err (Ctx r) = None" and "Status w = None"
  shows "(case Body r of
            None \<Rightarrow> Status (fst (handleComments env w r st)) = Some StatusBadRequest
                   \<and> snd (handleComments env w r st) = st
          | Some req \<Rightarrow>
              if TrimSpace (ReqContent req) \<noteq> [] \<and> length (ReqContent req) \<le> 1000
                 \<and> TrimSpace (ReqAuthor req) \<noteq> []
              then Status (fst (handleComments env w r st)) = Some StatusCreated
                 \<and> snd (handleComments env w r st)
                   = st(NewID env \<mapsto> \<lparr>ID = NewID env, Content = ReqContent req,
                                          Author = ReqAuthor req, CreatedAt = StoreNow env,
                                          UserID = UserIDFromContext (Ctx r)\<rparr>)
              else Status (fst (handleComments env w r st)) = Some StatusBadRequest
                 \<and> snd (handleComments env w r st) = st)"
  by (cases r rule: decodeValid_cases)
    (use assms in \<open>auto simp: handleComments_def Let_def Status_Error encode_def Write_def
       WriteHeader_def Header_Set_def Create_def Valid_empty_iff\<close>)

section \<open>The whole chain on the concrete inputs\<close>

text \<open>
  A request with the token \<open>example_token ''secret'' example_claims\<close> passes the CORS and the authentication middleware and
  reaches the router with the subject \<open>test\<close> in its context. Through the whole chain, a
  \<open>DELETE\<close> of the record of \<open>alice\<close> is answered 403 and leaves the store as it was, and
  the \<open>POST\<close> with an empty content is answered 400 with the line of the error.
\<close>

lemma example_token_accepted:
  "ValidateToken example_library (NewJWTManager ''secret'' (24 * Hour)) (11 * Second)
     (example_token ''secret'' example_claims) = Inr example_claims"
  by (simp add: ValidateToken_example_token asJSON_example_claims NewJWTManager_def
      Validate_example_claims)

lemma NewServer_authenticates_example:
  assumes "path \<noteq> ''/healthz''" and "path \<noteq> ''/api/v1/login''" and "method \<noteq> ''OPTIONS''"
  shows "NewServer example_library example_config mux example_env w
           (example_request method path (''Bearer '' @ example_token ''secret'' example_claims) b) st
         = mux example_env
             (Header_Set (Header_Set (Header_Set w ''Access-Control-Allow-Origin'' ''*'')
                 ''Access-Control-Allow-Methods'' ''GET, POST, PUT, DELETE, OPTIONS'')
               ''Access-Control-Allow-Headers'' ''Content-Type, Authorization'')
             (authenticated ''test'' (example_request method path (''Bearer '' @ example_token ''secret'' example_claims) b)) st"
  using assms
  by (simp add: NewServer_def newCORSMiddleware_def newAuthMiddleware_def Let_def
      example_request_def Header_Get_def HasPrefix_def TrimPrefix_def example_config_def
      example_env_def example_token_accepted [unfolded example_claims_def] authenticated_def
      example_claims_def)

lemma example_delete_by_other_subject:
  "Status (fst (NewServer example_library example_config handleComment example_env example_writer
                 (example_request ''DELETE'' ''/api/v1/comments/id-1'' (''Bearer '' @ example_token ''secret'' example_claims) None)
                 example_store)) = Some StatusForbidden
   \<and> snd (NewServer example_library example_config handleComment example_env example_writer
                 (example_request ''DELETE'' ''/api/v1/comments/id-1'' (''Bearer '' @ example_token ''secret'' example_claims) None)
                 example_store) = example_store"
proof -
  have "''/api/v1/comments/id-1'' \<noteq> ''/healthz''" "''/api/v1/comments/id-1'' \<noteq> ''/api/v1/login''"
    "''DELETE'' \<noteq> ''OPTIONS''"
    by simp_all
  note NewServer_authenticates_example [OF this]
  then show ?thesis
    by (simp add: handleComment_def Let_def authenticated_def
      example_request_def example_store_def UserIDFromContext_def WithValue_def Get_def
      TrimPrefix_def HasPrefix_def Status_Error Status_Header_Set example_writer_def)
qed

lemma example_post_empty_content:
  "Status (fst (NewServer example_library example_config handleComments example_env example_writer
                 (example_request ''POST'' ''/api/v1/comments'' (''Bearer '' @ example_token ''secret'' example_claims)
                    (Some \<lparr>ReqContent = [], ReqAuthor = ''x''\<rparr>))
                 Map.empty)) = Some StatusBadRequest
   \<and> Written (fst (NewServer example_library example_config handleComments example_env example_writer
                 (example_request ''POST'' ''/api/v1/comments'' (''Bearer '' @ example_token ''secret'' example_claims)
                    (Some \<lparr>ReqContent = [], ReqAuthor = ''x''\<rparr>))
                 Map.empty)) = [ErrorText (Invalid ''api.createCommentRequest'' 1)]
   \<and> snd (NewServer example_library example_config handleComments example_env example_writer
                 (example_request ''POST'' ''/api/v1/comments'' (''Bearer '' @ example_token ''secret'' example_claims)
                    (Some \<lparr>ReqContent = [], ReqAuthor = ''x''\<rparr>))
                 Map.empty) = Map.empty"
proof -
  have "''/api/v1/comments'' \<noteq> ''/healthz''" "''/api/v1/comments'' \<noteq> ''/api/v1/login''"
    "''POST'' \<noteq> ''OPTIONS''"
    by simp_all
  note NewServer_authenticates_example [OF this]
  then show ?thesis
    by (simp add: handleComments_def decodeValid_def Let_def
      Valid_empty_content authenticated_def example_request_def Status_Error Written_Error
      Status_Header_Set Header_Set_def example_writer_def)
qed

end
